theory Spec2Isabelle
  imports Main
begin

section \<open>Values, objects and method calls\<close>

text \<open>
  The class \<open>Option<T>\<close> has one field, \<open>value: T | undefined\<close>, and decides presence by
  the test \<open>this.value === undefined\<close>. A type argument \<open>T\<close> may itself admit
  \<open>undefined\<close> (\<open>Option<number | undefined>\<close> is well typed), so every value that can flow
  through the class is either the sentinel or a proper value of the payload type \<open>'a\<close>.
\<close>

datatype 'a jsval = Undefined | Defined 'a

record 'a Option =
  "value" :: "'a jsval"

text \<open>\<open>throw new Error(msg)\<close>: the one exception the class raises, carrying its message.\<close>

datatype error = Error string

text \<open>
  A method call runs on a receiver (\<open>this\<close>) in the world of its caller and completes
  either normally (\<open>Inr\<close> the returned value) or abruptly (\<open>Inl\<close> the thrown error).
  It hands back the receiver and the world as it leaves them. The world \<open>'s\<close> is whatever
  the caller's callbacks read and write (a call counter, a log). A callback of the type
  \<open>callback\<close> is a function of that world alone: it returns normally and it does not reach
  the receiver. The methods that take callbacks are given a second time further down, for
  callbacks that throw or hold the receiver. An object passed or returned by reference is
  represented by its state, and \<open>new Option(v)\<close>, which only fills the slot of a fresh
  object, by the state it builds.
\<close>

type_synonym ('a, 's) st = "'a Option \<times> 's"

type_synonym ('r, 'a, 's) meth = "('a, 's) st \<Rightarrow> (error + 'r) \<times> ('a, 's) st"

type_synonym ('r, 's) callback = "'s \<Rightarrow> 'r \<times> 's"

definition ret :: "'r \<Rightarrow> ('r, 'a, 's) meth" where
  "ret r \<sigma> = (Inr r, \<sigma>)"

definition throw :: "error \<Rightarrow> ('r, 'a, 's) meth" where
  "throw e \<sigma> = (Inl e, \<sigma>)"

text \<open>Sequencing: an abrupt completion of the first part skips the rest.\<close>

definition bind :: "('r, 'a, 's) meth \<Rightarrow> ('r \<Rightarrow> ('q, 'a, 's) meth) \<Rightarrow> ('q, 'a, 's) meth" where
  "bind m k \<sigma> = (case m \<sigma> of (Inl e, \<sigma>') \<Rightarrow> (Inl e, \<sigma>') | (Inr r, \<sigma>') \<Rightarrow> k r \<sigma>')"

text \<open>The read \<open>this.value\<close>, the write \<open>this.value = v\<close> and the reference \<open>this\<close>.\<close>

definition this_value :: "('a jsval, 'a, 's) meth" where
  "this_value \<sigma> = (Inr (value (fst \<sigma>)), \<sigma>)"

definition set_this_value :: "'a jsval \<Rightarrow> (unit, 'a, 's) meth" where
  "set_this_value v \<sigma> = (Inr (), (fst \<sigma>)\<lparr>value := v\<rparr>, snd \<sigma>)"

definition this_ref :: "('a Option, 'a, 's) meth" where
  "this_ref \<sigma> = (Inr (fst \<sigma>), \<sigma>)"

text \<open>Calling a callback \<open>f\<close> of the caller, and calling a method on another object.\<close>

definition call :: "('r, 's) callback \<Rightarrow> ('r, 'a, 's) meth" where
  "call f \<sigma> = (case f (snd \<sigma>) of (r, w') \<Rightarrow> (Inr r, fst \<sigma>, w'))"

definition on :: "'b Option \<Rightarrow> ('r, 'b, 's) meth \<Rightarrow> ('r, 'a, 's) meth" where
  "on optb m \<sigma> = (case m (optb, snd \<sigma>) of (r, optb', w') \<Rightarrow> (r, fst \<sigma>, w'))"

section \<open>The class Option\<close>

text \<open>
  \<^verbatim>\<open>constructor(value: T | undefined = undefined) { this.value = value; }\<close>
  A call without argument is a call with \<open>undefined\<close>, which the default parameter turns
  into \<open>undefined\<close> again.
\<close>

definition constructor :: "'a jsval \<Rightarrow> 'a Option" where
  "constructor v = \<lparr>value = v\<rparr>"

text \<open>\<^verbatim>\<open>static some<T>(value: T): Option<T> { return new Option(value); }\<close>\<close>

definition some :: "'a jsval \<Rightarrow> 'a Option" where
  "some v = constructor v"

text \<open>\<^verbatim>\<open>static none<T>(): Option<T> { return new Option(); }\<close>\<close>

definition none :: "'a Option" where
  "none = constructor Undefined"

text \<open>
  The private method
  \<^verbatim>\<open>_exchange(value) { const optb = new Option(this.value); this.value = value; return optb; }\<close>
\<close>

definition exchange :: "'a jsval \<Rightarrow> ('a Option, 'a, 's) meth" where
  "exchange v =
     bind this_value (\<lambda>old.
       let optb = constructor old in
       bind (set_this_value v) (\<lambda>_. ret optb))"

text \<open>\<^verbatim>\<open>isNone() { return this.value === undefined; }\<close>\<close>

definition isNone :: "(bool, 'a, 's) meth" where
  "isNone = bind this_value (\<lambda>v. ret (v = Undefined))"

text \<open>\<^verbatim>\<open>isSome() { return !this.isNone(); }\<close>\<close>

definition isSome :: "(bool, 'a, 's) meth" where
  "isSome = bind isNone (\<lambda>b. ret (\<not> b))"

text \<open>\<^verbatim>\<open>isSomeAnd(predicate) { return this.isSome() && predicate(this.value); }\<close>\<close>

definition isSomeAnd :: "('a jsval \<Rightarrow> (bool, 's) callback) \<Rightarrow> (bool, 'a, 's) meth" where
  "isSomeAnd predicate =
     bind isSome (\<lambda>b.
       if b then bind this_value (\<lambda>v. call (predicate v)) else ret False)"

text \<open>\<^verbatim>\<open>asSlice() { return this.isSome() ? [this.value] : []; }\<close>\<close>

definition asSlice :: "('a jsval list, 'a, 's) meth" where
  "asSlice = bind isSome (\<lambda>b. if b then bind this_value (\<lambda>v. ret [v]) else ret [])"

text \<open>\<^verbatim>\<open>expect(msg) { if (this.isSome()) { return this.value; } throw new Error(msg); }\<close>\<close>

definition expect :: "string \<Rightarrow> ('a jsval, 'a, 's) meth" where
  "expect msg = bind isSome (\<lambda>b. if b then this_value else throw (Error msg))"

text \<open>\<^verbatim>\<open>unwrap() { return this.expect("Option is None"); }\<close>\<close>

definition unwrap :: "('a jsval, 'a, 's) meth" where
  "unwrap = expect ''Option is None''"

text \<open>\<^verbatim>\<open>unwrapOrElse(f) { return this.isSome() ? this.value : f(); }\<close>\<close>

definition unwrapOrElse :: "('a jsval, 's) callback \<Rightarrow> ('a jsval, 'a, 's) meth" where
  "unwrapOrElse f = bind isSome (\<lambda>b. if b then this_value else call f)"

text \<open>\<^verbatim>\<open>unwrapOr(fallback) { return this.unwrapOrElse(() => fallback); }\<close>\<close>

definition unwrapOr :: "'a jsval \<Rightarrow> ('a jsval, 'a, 's) meth" where
  "unwrapOr fallback = unwrapOrElse (\<lambda>w. (fallback, w))"

text \<open>\<^verbatim>\<open>map(f) { return this.isSome() ? Option.some(f(this.value)) : Option.none(); }\<close>\<close>

definition map_opt :: "('a jsval \<Rightarrow> ('b jsval, 's) callback) \<Rightarrow> ('b Option, 'a, 's) meth" where
  "map_opt f =
     bind isSome (\<lambda>b.
       if b then bind this_value (\<lambda>v. bind (call (f v)) (\<lambda>u. ret (some u)))
       else ret none)"

text \<open>\<^verbatim>\<open>inspect(f) { if (this.isSome()) { f(this.value); } return this; }\<close>\<close>

definition inspect :: "('a jsval \<Rightarrow> (unit, 's) callback) \<Rightarrow> ('a Option, 'a, 's) meth" where
  "inspect f =
     bind isSome (\<lambda>b.
       bind (if b then bind this_value (\<lambda>v. call (f v)) else ret ()) (\<lambda>_.
         this_ref))"

text \<open>\<^verbatim>\<open>mapOrElse(fallback, f) { return this.isSome() ? f(this.value) : fallback(); }\<close>\<close>

definition mapOrElse ::
  "('u, 's) callback \<Rightarrow> ('a jsval \<Rightarrow> ('u, 's) callback) \<Rightarrow> ('u, 'a, 's) meth" where
  "mapOrElse fallback f =
     bind isSome (\<lambda>b. if b then bind this_value (\<lambda>v. call (f v)) else call fallback)"

text \<open>\<^verbatim>\<open>mapOr(fallback, f) { return this.mapOrElse(() => fallback, f); }\<close>\<close>

definition mapOr :: "'u \<Rightarrow> ('a jsval \<Rightarrow> ('u, 's) callback) \<Rightarrow> ('u, 'a, 's) meth" where
  "mapOr fallback f = mapOrElse (\<lambda>w. (fallback, w)) f"

text \<open>\<^verbatim>\<open>andThen(f) { return this.isSome() ? f(this.value) : Option.none(); }\<close>\<close>

definition andThen :: "('a jsval \<Rightarrow> ('b Option, 's) callback) \<Rightarrow> ('b Option, 'a, 's) meth" where
  "andThen f =
     bind isSome (\<lambda>b. if b then bind this_value (\<lambda>v. call (f v)) else ret none)"

text \<open>\<^verbatim>\<open>and(optb) { return this.andThen(() => optb); }\<close>\<close>

definition and_opt :: "'b Option \<Rightarrow> ('b Option, 'a, 's) meth" where
  "and_opt optb = andThen (\<lambda>_ w. (optb, w))"

text \<open>\<^verbatim>\<open>filter(predicate) { return this.isSomeAnd(predicate) ? this : Option.none(); }\<close>\<close>

definition filter_opt :: "('a jsval \<Rightarrow> (bool, 's) callback) \<Rightarrow> ('a Option, 'a, 's) meth" where
  "filter_opt predicate =
     bind (isSomeAnd predicate) (\<lambda>b. if b then this_ref else ret none)"

text \<open>\<^verbatim>\<open>orElse(f) { return this.isSome() ? this : f(); }\<close>\<close>

definition orElse :: "('a Option, 's) callback \<Rightarrow> ('a Option, 'a, 's) meth" where
  "orElse f = bind isSome (\<lambda>b. if b then this_ref else call f)"

text \<open>\<^verbatim>\<open>or(optb) { return this.orElse(() => optb); }\<close>\<close>

definition or_opt :: "'a Option \<Rightarrow> ('a Option, 'a, 's) meth" where
  "or_opt optb = orElse (\<lambda>w. (optb, w))"

text \<open>\<^verbatim>\<open>xor(optb) { return this.isSome() ? (optb.isNone() ? this : Option.none()) : optb; }\<close>\<close>

definition xor_opt :: "'a Option \<Rightarrow> ('a Option, 'a, 's) meth" where
  "xor_opt optb =
     bind isSome (\<lambda>b.
       if b then bind (on optb isNone) (\<lambda>n. if n then this_ref else ret none)
       else ret optb)"

text \<open>\<^verbatim>\<open>insert(value) { this.value = value; return this.value; }\<close>\<close>

definition insert_opt :: "'a jsval \<Rightarrow> ('a jsval, 'a, 's) meth" where
  "insert_opt v = bind (set_this_value v) (\<lambda>_. this_value)"

text \<open>\<^verbatim>\<open>getOrInsertWith(f) { return this.isSome() ? this.value : this.insert(f()); }\<close>\<close>

definition getOrInsertWith :: "('a jsval, 's) callback \<Rightarrow> ('a jsval, 'a, 's) meth" where
  "getOrInsertWith f =
     bind isSome (\<lambda>b. if b then this_value else bind (call f) (\<lambda>v. insert_opt v))"

text \<open>\<^verbatim>\<open>getOrInsert(value) { return this.getOrInsertWith(() => value); }\<close>\<close>

definition getOrInsert :: "'a jsval \<Rightarrow> ('a jsval, 'a, 's) meth" where
  "getOrInsert v = getOrInsertWith (\<lambda>w. (v, w))"

text \<open>\<^verbatim>\<open>take() { return this._exchange(undefined); }\<close>\<close>

definition take_opt :: "('a Option, 'a, 's) meth" where
  "take_opt = exchange Undefined"

text \<open>\<^verbatim>\<open>replace(value) { return this._exchange(value); }\<close>\<close>

definition replace :: "'a jsval \<Rightarrow> ('a Option, 'a, 's) meth" where
  "replace v = exchange v"

text \<open>
  \<^verbatim>\<open>zip(other) { return this.isSome() && other.isSome() ? Option.some([this.value, other.value]) : Option.none(); }\<close>
  The pair \<open>[this.value, other.value]\<close> is an array, never \<open>undefined\<close>.
\<close>

definition zip_opt :: "'b Option \<Rightarrow> (('a jsval \<times> 'b jsval) Option, 'a, 's) meth" where
  "zip_opt other =
     bind isSome (\<lambda>b.
       bind (if b then on other isSome else ret False) (\<lambda>c.
         if c then bind this_value (\<lambda>v. ret (some (Defined (v, value other))))
         else ret none))"

section \<open>Callbacks that throw or hold the receiver\<close>

text \<open>
  The class runs a callback with a plain call and no \<open>try\<close>, and the caller's function may
  close over the very object the method was called on
  (\<open>c.filter(x => { c.take(); return true; })\<close>). Such a callback is itself a piece of code
  that runs on the receiver and the world and completes normally or abruptly: a \<open>meth\<close>.
  The ten methods that take a callback are translated again for callbacks of this kind
  (suffix \<open>_x\<close>), body by body; a closure the class builds itself, \<open>() => fallback\<close>, is
  \<open>ret fallback\<close>. The definitions of the previous section are these at the callback
  \<open>call f\<close>.
\<close>

text \<open>\<^verbatim>\<open>isSomeAnd(predicate) { return this.isSome() && predicate(this.value); }\<close>\<close>

definition isSomeAnd_x :: "('a jsval \<Rightarrow> (bool, 'a, 's) meth) \<Rightarrow> (bool, 'a, 's) meth" where
  "isSomeAnd_x predicate =
     bind isSome (\<lambda>b. if b then bind this_value (\<lambda>v. predicate v) else ret False)"

text \<open>\<^verbatim>\<open>unwrapOrElse(f) { return this.isSome() ? this.value : f(); }\<close>\<close>

definition unwrapOrElse_x :: "('a jsval, 'a, 's) meth \<Rightarrow> ('a jsval, 'a, 's) meth" where
  "unwrapOrElse_x f = bind isSome (\<lambda>b. if b then this_value else f)"

text \<open>\<^verbatim>\<open>map(f) { return this.isSome() ? Option.some(f(this.value)) : Option.none(); }\<close>\<close>

definition map_x :: "('a jsval \<Rightarrow> ('b jsval, 'a, 's) meth) \<Rightarrow> ('b Option, 'a, 's) meth" where
  "map_x f =
     bind isSome (\<lambda>b.
       if b then bind this_value (\<lambda>v. bind (f v) (\<lambda>u. ret (some u)))
       else ret none)"

text \<open>\<^verbatim>\<open>inspect(f) { if (this.isSome()) { f(this.value); } return this; }\<close>\<close>

definition inspect_x :: "('a jsval \<Rightarrow> (unit, 'a, 's) meth) \<Rightarrow> ('a Option, 'a, 's) meth" where
  "inspect_x f =
     bind isSome (\<lambda>b.
       bind (if b then bind this_value (\<lambda>v. f v) else ret ()) (\<lambda>_.
         this_ref))"

text \<open>\<^verbatim>\<open>mapOrElse(fallback, f) { return this.isSome() ? f(this.value) : fallback(); }\<close>\<close>

definition mapOrElse_x ::
  "('u, 'a, 's) meth \<Rightarrow> ('a jsval \<Rightarrow> ('u, 'a, 's) meth) \<Rightarrow> ('u, 'a, 's) meth" where
  "mapOrElse_x fallback f =
     bind isSome (\<lambda>b. if b then bind this_value (\<lambda>v. f v) else fallback)"

text \<open>\<^verbatim>\<open>mapOr(fallback, f) { return this.mapOrElse(() => fallback, f); }\<close>\<close>

definition mapOr_x :: "'u \<Rightarrow> ('a jsval \<Rightarrow> ('u, 'a, 's) meth) \<Rightarrow> ('u, 'a, 's) meth" where
  "mapOr_x fallback f = mapOrElse_x (ret fallback) f"

text \<open>\<^verbatim>\<open>andThen(f) { return this.isSome() ? f(this.value) : Option.none(); }\<close>\<close>

definition andThen_x :: "('a jsval \<Rightarrow> ('b Option, 'a, 's) meth) \<Rightarrow> ('b Option, 'a, 's) meth" where
  "andThen_x f =
     bind isSome (\<lambda>b. if b then bind this_value (\<lambda>v. f v) else ret none)"

text \<open>\<^verbatim>\<open>filter(predicate) { return this.isSomeAnd(predicate) ? this : Option.none(); }\<close>\<close>

definition filter_x :: "('a jsval \<Rightarrow> (bool, 'a, 's) meth) \<Rightarrow> ('a Option, 'a, 's) meth" where
  "filter_x predicate =
     bind (isSomeAnd_x predicate) (\<lambda>b. if b then this_ref else ret none)"

text \<open>\<^verbatim>\<open>orElse(f) { return this.isSome() ? this : f(); }\<close>\<close>

definition orElse_x :: "('a Option, 'a, 's) meth \<Rightarrow> ('a Option, 'a, 's) meth" where
  "orElse_x f = bind isSome (\<lambda>b. if b then this_ref else f)"

text \<open>\<^verbatim>\<open>getOrInsertWith(f) { return this.isSome() ? this.value : this.insert(f()); }\<close>\<close>

definition getOrInsertWith_x :: "('a jsval, 'a, 's) meth \<Rightarrow> ('a jsval, 'a, 's) meth" where
  "getOrInsertWith_x f =
     bind isSome (\<lambda>b. if b then this_value else bind f (\<lambda>v. insert_opt v))"

text \<open>
  The expressions the claims are written with: a method called on the object that the
  previous call returned (\<open>c.map(f).map(g)\<close>), and the callback \<open>x => g(f(x))\<close>.
\<close>

definition chain :: "('b Option, 'a, 's) meth \<Rightarrow> ('r, 'b, 's) meth \<Rightarrow> ('r, 'a, 's) meth" where
  "chain m k = bind m (\<lambda>obj. on obj k)"

definition compose ::
  "('b \<Rightarrow> ('c, 's) callback) \<Rightarrow> ('a \<Rightarrow> ('b, 's) callback) \<Rightarrow> 'a \<Rightarrow> ('c, 's) callback" where
  "compose g f = (\<lambda>x w. case f x w of (y, w') \<Rightarrow> g y w')"

text \<open>
  Whether a finished call threw, and the results of \<open>n\<close> calls of \<open>take()\<close> in a row on
  the same object.
\<close>

definition throws :: "(error + 'r) \<times> ('a, 's) st \<Rightarrow> bool" where
  "throws out = (case fst out of Inl e \<Rightarrow> True | Inr r \<Rightarrow> False)"

fun repeat_take :: "nat \<Rightarrow> ('a, 's) st \<Rightarrow> (error + 'a Option) list" where
  "repeat_take 0 \<sigma> = []"
| "repeat_take (Suc n) \<sigma> = (case take_opt \<sigma> of (r, \<sigma>') \<Rightarrow> r # repeat_take n \<sigma>')"

section \<open>What one call does\<close>

lemma ret_run: "ret r (this, w) = (Inr r, this, w)"
  by (simp add: ret_def)

lemma throw_run: "throw e (this, w) = (Inl e, this, w)"
  by (simp add: throw_def)

lemma this_value_run: "this_value (this, w) = (Inr (value this), this, w)"
  by (simp add: this_value_def)

lemma set_this_value_run: "set_this_value v (this, w) = (Inr (), this\<lparr>value := v\<rparr>, w)"
  by (simp add: set_this_value_def)

lemma this_ref_run: "this_ref (this, w) = (Inr this, this, w)"
  by (simp add: this_ref_def)

lemma call_run: "call f (this, w) = (Inr (fst (f w)), this, snd (f w))"
  by (simp add: call_def split: prod.split)

lemma on_run: "on optb m (this, w) = (fst (m (optb, w)), this, snd (snd (m (optb, w))))"
  by (simp add: on_def split: prod.split)

lemmas prim_run = ret_run throw_run this_value_run set_this_value_run this_ref_run call_run on_run

lemma isNone_run: "isNone (this, w) = (Inr (value this = Undefined), this, w)"
  by (simp add: isNone_def bind_def this_value_def ret_def)

lemma isSome_run: "isSome (this, w) = (Inr (value this \<noteq> Undefined), this, w)"
  by (simp add: isSome_def bind_def isNone_run ret_def)

lemma expect_run:
  "expect msg (this, w) =
     (if value this \<noteq> Undefined then Inr (value this) else Inl (Error msg), this, w)"
  by (simp add: expect_def bind_def isSome_run this_value_def throw_def)

lemma unwrap_run:
  "unwrap (this, w) =
     (if value this \<noteq> Undefined then Inr (value this) else Inl (Error ''Option is None''), this, w)"
  by (simp add: unwrap_def expect_run)

lemma value_some: "value (some v) = v"
  by (simp add: some_def constructor_def)

lemma value_none: "value none = Undefined"
  by (simp add: none_def constructor_def)

lemma isSomeAnd_run:
  "isSomeAnd predicate (this, w) =
     (if value this \<noteq> Undefined
      then (Inr (fst (predicate (value this) w)), this, snd (predicate (value this) w))
      else (Inr False, this, w))"
  by (simp add: isSomeAnd_def bind_def isSome_run prim_run)

lemma asSlice_run:
  "asSlice (this, w) = (Inr (if value this \<noteq> Undefined then [value this] else []), this, w)"
  by (simp add: asSlice_def bind_def isSome_run prim_run)

lemma unwrapOrElse_run:
  "unwrapOrElse f (this, w) =
     (if value this \<noteq> Undefined then (Inr (value this), this, w)
      else (Inr (fst (f w)), this, snd (f w)))"
  by (simp add: unwrapOrElse_def bind_def isSome_run prim_run)

lemma unwrapOr_run:
  "unwrapOr fallback (this, w) =
     (Inr (if value this \<noteq> Undefined then value this else fallback), this, w)"
  by (simp add: unwrapOr_def unwrapOrElse_run)

lemma map_opt_run:
  "map_opt f (this, w) =
     (if value this \<noteq> Undefined
      then (Inr (some (fst (f (value this) w))), this, snd (f (value this) w))
      else (Inr none, this, w))"
  by (simp add: map_opt_def bind_def isSome_run prim_run)

lemma inspect_run:
  "inspect f (this, w) =
     (Inr this, this, if value this \<noteq> Undefined then snd (f (value this) w) else w)"
  by (simp add: inspect_def bind_def isSome_run prim_run)

lemma mapOrElse_run:
  "mapOrElse fallback f (this, w) =
     (if value this \<noteq> Undefined
      then (Inr (fst (f (value this) w)), this, snd (f (value this) w))
      else (Inr (fst (fallback w)), this, snd (fallback w)))"
  by (simp add: mapOrElse_def bind_def isSome_run prim_run)

lemma mapOr_run:
  "mapOr fallback f (this, w) =
     (if value this \<noteq> Undefined
      then (Inr (fst (f (value this) w)), this, snd (f (value this) w))
      else (Inr fallback, this, w))"
  by (simp add: mapOr_def mapOrElse_run)

lemma andThen_run:
  "andThen f (this, w) =
     (if value this \<noteq> Undefined
      then (Inr (fst (f (value this) w)), this, snd (f (value this) w))
      else (Inr none, this, w))"
  by (simp add: andThen_def bind_def isSome_run prim_run)

lemma and_opt_run:
  "and_opt optb (this, w) = (Inr (if value this \<noteq> Undefined then optb else none), this, w)"
  by (simp add: and_opt_def andThen_run)

lemma filter_opt_run:
  "filter_opt predicate (this, w) =
     (if value this \<noteq> Undefined
      then (Inr (if fst (predicate (value this) w) then this else none), this,
            snd (predicate (value this) w))
      else (Inr none, this, w))"
  by (simp add: filter_opt_def bind_def isSomeAnd_run prim_run)

lemma orElse_run:
  "orElse f (this, w) =
     (if value this \<noteq> Undefined then (Inr this, this, w)
      else (Inr (fst (f w)), this, snd (f w)))"
  by (simp add: orElse_def bind_def isSome_run prim_run)

lemma or_opt_run:
  "or_opt optb (this, w) = (Inr (if value this \<noteq> Undefined then this else optb), this, w)"
  by (simp add: or_opt_def orElse_run)

lemma xor_opt_run:
  "xor_opt optb (this, w) =
     (Inr (if value this \<noteq> Undefined then (if value optb = Undefined then this else none)
           else optb), this, w)"
  by (simp add: xor_opt_def bind_def isSome_run isNone_run prim_run)

lemma insert_opt_run: "insert_opt v (this, w) = (Inr v, this\<lparr>value := v\<rparr>, w)"
  by (simp add: insert_opt_def bind_def prim_run)

lemma getOrInsertWith_run:
  "getOrInsertWith f (this, w) =
     (if value this \<noteq> Undefined then (Inr (value this), this, w)
      else (Inr (fst (f w)), this\<lparr>value := fst (f w)\<rparr>, snd (f w)))"
  by (simp add: getOrInsertWith_def bind_def isSome_run insert_opt_run prim_run)

lemma getOrInsert_run:
  "getOrInsert v (this, w) =
     (if value this \<noteq> Undefined then (Inr (value this), this, w)
      else (Inr v, this\<lparr>value := v\<rparr>, w))"
  by (simp add: getOrInsert_def getOrInsertWith_run)

lemma exchange_run:
  "exchange v (this, w) = (Inr (constructor (value this)), this\<lparr>value := v\<rparr>, w)"
  by (simp add: exchange_def bind_def prim_run)

lemma take_opt_run:
  "take_opt (this, w) = (Inr (constructor (value this)), this\<lparr>value := Undefined\<rparr>, w)"
  by (simp add: take_opt_def exchange_run)

lemma replace_run:
  "replace v (this, w) = (Inr (constructor (value this)), this\<lparr>value := v\<rparr>, w)"
  by (simp add: replace_def exchange_run)

lemma zip_opt_run:
  "zip_opt other (this, w) =
     (Inr (if value this \<noteq> Undefined \<and> value other \<noteq> Undefined
           then some (Defined (value this, value other)) else none), this, w)"
  by (simp add: zip_opt_def bind_def isSome_run prim_run)

lemmas meth_run = isNone_run isSome_run expect_run unwrap_run isSomeAnd_run asSlice_run
  unwrapOrElse_run unwrapOr_run map_opt_run inspect_run mapOrElse_run mapOr_run andThen_run
  and_opt_run filter_opt_run orElse_run or_opt_run xor_opt_run insert_opt_run
  getOrInsertWith_run getOrInsert_run exchange_run take_opt_run replace_run zip_opt_run

text \<open>The two translations of a method with a callback agree on the callbacks \<open>call f\<close>.\<close>

lemma isSomeAnd_is_x: "isSomeAnd predicate = isSomeAnd_x (\<lambda>v. call (predicate v))"
  by (simp add: isSomeAnd_def isSomeAnd_x_def)

lemma unwrapOrElse_is_x: "unwrapOrElse f = unwrapOrElse_x (call f)"
  by (simp add: unwrapOrElse_def unwrapOrElse_x_def)

lemma map_opt_is_x: "map_opt f = map_x (\<lambda>v. call (f v))"
  by (simp add: map_opt_def map_x_def)

lemma inspect_is_x: "inspect f = inspect_x (\<lambda>v. call (f v))"
  by (simp add: inspect_def inspect_x_def)

lemma mapOrElse_is_x: "mapOrElse fallback f = mapOrElse_x (call fallback) (\<lambda>v. call (f v))"
  by (simp add: mapOrElse_def mapOrElse_x_def)

lemma call_const: "call (\<lambda>w. (x, w)) = ret x"
  by (rule ext) (simp add: call_def ret_def)

lemma mapOr_is_x: "mapOr fallback f = mapOr_x fallback (\<lambda>v. call (f v))"
  by (simp add: mapOr_def mapOr_x_def mapOrElse_is_x call_const)

lemma andThen_is_x: "andThen f = andThen_x (\<lambda>v. call (f v))"
  by (simp add: andThen_def andThen_x_def)

lemma filter_opt_is_x: "filter_opt predicate = filter_x (\<lambda>v. call (predicate v))"
  by (simp add: filter_opt_def filter_x_def isSomeAnd_is_x)

lemma orElse_is_x: "orElse f = orElse_x (call f)"
  by (simp add: orElse_def orElse_x_def)

lemma getOrInsertWith_is_x: "getOrInsertWith f = getOrInsertWith_x (call f)"
  by (simp add: getOrInsertWith_def getOrInsertWith_x_def)

text \<open>One call of a method whose callback is any code.\<close>

lemma isSomeAnd_x_run:
  "isSomeAnd_x predicate (this, w) =
     (if value this \<noteq> Undefined then predicate (value this) (this, w) else (Inr False, this, w))"
  by (simp add: isSomeAnd_x_def bind_def isSome_run prim_run)

lemma unwrapOrElse_x_run:
  "unwrapOrElse_x f (this, w) =
     (if value this \<noteq> Undefined then (Inr (value this), this, w) else f (this, w))"
  by (simp add: unwrapOrElse_x_def bind_def isSome_run prim_run)

lemma map_x_run:
  "map_x f (this, w) =
     (if value this \<noteq> Undefined
      then (case fst (f (value this) (this, w)) of
              Inl e \<Rightarrow> (Inl e, snd (f (value this) (this, w)))
            | Inr u \<Rightarrow> (Inr (some u), snd (f (value this) (this, w))))
      else (Inr none, this, w))"
  by (simp add: map_x_def bind_def isSome_run prim_run ret_def split: prod.split sum.split)

lemma inspect_x_run:
  "inspect_x f (this, w) =
     (if value this \<noteq> Undefined
      then (case fst (f (value this) (this, w)) of
              Inl e \<Rightarrow> (Inl e, snd (f (value this) (this, w)))
            | Inr u \<Rightarrow> (Inr (fst (snd (f (value this) (this, w)))), snd (f (value this) (this, w))))
      else (Inr this, this, w))"
  by (simp add: inspect_x_def bind_def isSome_run prim_run this_ref_def split: prod.split sum.split)

lemma mapOrElse_x_run:
  "mapOrElse_x fallback f (this, w) =
     (if value this \<noteq> Undefined then f (value this) (this, w) else fallback (this, w))"
  by (simp add: mapOrElse_x_def bind_def isSome_run prim_run)

lemma mapOr_x_run:
  "mapOr_x fallback f (this, w) =
     (if value this \<noteq> Undefined then f (value this) (this, w) else (Inr fallback, this, w))"
  by (simp add: mapOr_x_def mapOrElse_x_run prim_run)

lemma andThen_x_run:
  "andThen_x f (this, w) =
     (if value this \<noteq> Undefined then f (value this) (this, w) else (Inr none, this, w))"
  by (simp add: andThen_x_def bind_def isSome_run prim_run)

lemma filter_x_run:
  "filter_x predicate (this, w) =
     (if value this \<noteq> Undefined
      then (case fst (predicate (value this) (this, w)) of
              Inl e \<Rightarrow> (Inl e, snd (predicate (value this) (this, w)))
            | Inr b \<Rightarrow> (Inr (if b then fst (snd (predicate (value this) (this, w))) else none),
                        snd (predicate (value this) (this, w))))
      else (Inr none, this, w))"
  by (simp add: filter_x_def bind_def isSomeAnd_x_run prim_run this_ref_def ret_def
      split: prod.split sum.split)

lemma orElse_x_run:
  "orElse_x f (this, w) =
     (if value this \<noteq> Undefined then (Inr this, this, w) else f (this, w))"
  by (simp add: orElse_x_def bind_def isSome_run prim_run)

lemma getOrInsertWith_x_run:
  "getOrInsertWith_x f (this, w) =
     (if value this \<noteq> Undefined then (Inr (value this), this, w)
      else (case fst (f (this, w)) of
              Inl e \<Rightarrow> (Inl e, snd (f (this, w)))
            | Inr v \<Rightarrow> (Inr v, (fst (snd (f (this, w))))\<lparr>value := v\<rparr>, snd (snd (f (this, w))))))"
  by (simp add: getOrInsertWith_x_def bind_def isSome_run prim_run insert_opt_def
      set_this_value_def this_value_def split: prod.split sum.split)

lemmas meth_x_run = isSomeAnd_x_run unwrapOrElse_x_run map_x_run inspect_x_run mapOrElse_x_run
  mapOr_x_run andThen_x_run filter_x_run orElse_x_run getOrInsertWith_x_run

text \<open>An object has no state but its slot: two objects with the same slot are equal.\<close>

lemma Option_eq_iff: "(c :: 'a Option) = d \<longleftrightarrow> value c = value d"
  by (cases c, cases d) simp

lemma value_constructor: "value (constructor v) = v"
  by (simp add: constructor_def)

lemma some_Undefined: "some Undefined = none"
  by (simp add: some_def none_def)

lemma some_value: "some (value c) = (c :: 'a Option)"
  by (simp add: Option_eq_iff value_some)

lemma repeat_take_empty:
  fixes c :: "'a Option"
  shows "value c = Undefined \<Longrightarrow> repeat_take n (c, w) = replicate n (Inr none)"
proof (induction n)
  case 0
  show ?case by simp
next
  case (Suc n)
  from Suc.prems have c: "c = none"
    by (simp add: Option_eq_iff value_none)
  have "take_opt (none :: 'a Option, w) = (Inr none, none, w)"
    by (simp add: take_opt_run value_none Option_eq_iff value_constructor)
  with Suc c show ?case by simp
qed

lemma repeat_take_Suc:
  fixes c :: "'a Option"
  shows "repeat_take (Suc n) (c, w) = Inr (some (value c)) # replicate n (Inr none)"
  by (simp add: take_opt_run repeat_take_empty Option_eq_iff value_constructor value_some)

section \<open>Construction\<close>

text \<open>
  C1, as amended. For every value \<open>v\<close> other than \<open>undefined\<close>, \<open>Option.some(v)\<close> is a
  container on which \<open>isSome()\<close> returns \<open>true\<close> and \<open>unwrap()\<close> returns \<open>v\<close>.
\<close>

theorem some_isSome_unwrap:
  assumes "v \<noteq> Undefined"
  shows "fst (isSome (some v, w)) = Inr True \<and> fst (unwrap (some v, w)) = Inr v"
  using assms by (simp add: isSome_run unwrap_run value_some)

theorem some_isSome_unwrap_witness:
  "Defined (5::int) \<noteq> Undefined
   \<and> fst (isSome (some (Defined (5::int)), ())) = Inr True
   \<and> fst (unwrap (some (Defined (5::int)), ())) = Inr (Defined 5)"
  using some_isSome_unwrap [of "Defined (5::int)" "()"] by simp

text \<open>
  C1 as stated fails at \<open>v = undefined\<close>: \<open>Option.some(undefined)\<close> stores the sentinel,
  so \<open>isSome()\<close> returns \<open>false\<close> and \<open>unwrap()\<close> throws.
\<close>

theorem some_undefined_counterexample:
  "fst (isSome (some (Undefined :: int jsval), ())) = Inr False
   \<and> fst (unwrap (some (Undefined :: int jsval), ())) = Inl (Error ''Option is None'')"
  by (simp add: isSome_run unwrap_run value_some)

section \<open>Extraction and failure\<close>

text \<open>
  C2, as amended. \<open>expect(msg)\<close> returns the contained value when the container is present
  and otherwise throws the error carrying \<open>msg\<close>; \<open>unwrap()\<close> is \<open>expect\<close> with the fixed
  message \<open>"Option is None"\<close>; both throw exactly on an absent container. No other method
  throws an error of its own: a method that takes no callback never throws, and a method
  that takes a callback throws an error exactly when it calls the callback and that call
  throws this error.
\<close>

theorem failures_are_expect_or_callback:
  "expect msg (this, w) =
     (if fst (isSome (this, w)) = Inr True then Inr (value this) else Inl (Error msg), this, w)
   \<and> unwrap (this, w) = expect ''Option is None'' (this, w)
   \<and> throws (expect msg (this, w)) = (fst (isNone (this, w)) = Inr True)
   \<and> throws (unwrap (this, w)) = (fst (isNone (this, w)) = Inr True)
   \<and> \<not> throws (isSome (this, w))
   \<and> \<not> throws (isNone (this, w))
   \<and> \<not> throws (asSlice (this, w))
   \<and> \<not> throws (unwrapOr d_unwrapOr (this, w))
   \<and> \<not> throws (and_opt optb_and (this, w))
   \<and> \<not> throws (or_opt optb_or (this, w))
   \<and> \<not> throws (xor_opt optb_xor (this, w))
   \<and> \<not> throws (insert_opt v_insert (this, w))
   \<and> \<not> throws (getOrInsert v_getOrInsert (this, w))
   \<and> \<not> throws (take_opt (this, w))
   \<and> \<not> throws (replace v_replace (this, w))
   \<and> \<not> throws (zip_opt other_zip (this, w))
   \<and> (fst (isSomeAnd_x p_isSomeAnd (this, w)) = Inl e)
       = (fst (isSome (this, w)) = Inr True \<and> fst (p_isSomeAnd (value this) (this, w)) = Inl e)
   \<and> (fst (unwrapOrElse_x f_unwrapOrElse (this, w)) = Inl e)
       = (fst (isNone (this, w)) = Inr True \<and> fst (f_unwrapOrElse (this, w)) = Inl e)
   \<and> (fst (map_x f_map (this, w)) = Inl e)
       = (fst (isSome (this, w)) = Inr True \<and> fst (f_map (value this) (this, w)) = Inl e)
   \<and> (fst (inspect_x f_inspect (this, w)) = Inl e)
       = (fst (isSome (this, w)) = Inr True \<and> fst (f_inspect (value this) (this, w)) = Inl e)
   \<and> (fst (mapOr_x d_mapOr f_mapOr (this, w)) = Inl e)
       = (fst (isSome (this, w)) = Inr True \<and> fst (f_mapOr (value this) (this, w)) = Inl e)
   \<and> (fst (mapOrElse_x d_mapOrElse f_mapOrElse (this, w)) = Inl e)
       = (if fst (isSome (this, w)) = Inr True
          then fst (f_mapOrElse (value this) (this, w)) = Inl e
          else fst (d_mapOrElse (this, w)) = Inl e)
   \<and> (fst (andThen_x f_andThen (this, w)) = Inl e)
       = (fst (isSome (this, w)) = Inr True \<and> fst (f_andThen (value this) (this, w)) = Inl e)
   \<and> (fst (filter_x p_filter (this, w)) = Inl e)
       = (fst (isSome (this, w)) = Inr True \<and> fst (p_filter (value this) (this, w)) = Inl e)
   \<and> (fst (orElse_x f_orElse (this, w)) = Inl e)
       = (fst (isNone (this, w)) = Inr True \<and> fst (f_orElse (this, w)) = Inl e)
   \<and> (fst (getOrInsertWith_x f_getOrInsertWith (this, w)) = Inl e)
       = (fst (isNone (this, w)) = Inr True \<and> fst (f_getOrInsertWith (this, w)) = Inl e)"
  by (simp add: throws_def meth_run meth_x_run split: sum.split)

theorem failures_are_expect_or_callback_witness:
  "expect ''no port'' (some (Defined (8080::int)), ()) = (Inr (Defined 8080), some (Defined 8080), ())
   \<and> expect ''no port'' (none :: int Option, ()) = (Inl (Error ''no port''), none, ())
   \<and> unwrap (none :: int Option, ()) = (Inl (Error ''Option is None''), none, ())
   \<and> fst (filter_x (\<lambda>v. throw (Error ''bad predicate'')) (some (Defined (8080::int)), ()))
       = Inl (Error ''bad predicate'')
   \<and> fst (filter_x (\<lambda>v. throw (Error ''bad predicate'')) (none :: int Option, ())) = Inr none
   \<and> fst (orElse_x (throw (Error ''no default'')) (none :: int Option, ()))
       = Inl (Error ''no default'')"
  using failures_are_expect_or_callback
      [where msg = "''no port''" and this = "some (Defined (8080::int))" and w = "()"
         and e = "Error ''bad predicate''"
         and p_filter = "\<lambda>v. throw (Error ''bad predicate'')"]
    failures_are_expect_or_callback
      [where msg = "''no port''" and this = "none :: int Option" and w = "()"
         and e = "Error ''no default''" and f_orElse = "throw (Error ''no default'')"]
  by (simp add: isSome_run isNone_run expect_run unwrap_run filter_x_run orElse_x_run throw_run
      value_some value_none)

text \<open>
  C2 as stated fails for a callback that throws: the class calls it without a \<open>try\<close>, so
  \<open>Option.some(1).map(() => { throw new Error("boom"); })\<close> throws, and \<open>map\<close> is neither
  \<open>expect\<close> nor \<open>unwrap\<close>.
\<close>

theorem map_throwing_callback_counterexample:
  "map_x (\<lambda>v. throw (Error ''boom'')) (some (Defined (1::int)), ())
     = (Inl (Error ''boom'') :: error + bool Option, some (Defined 1), ())
   \<and> throws (map_x (\<lambda>v. throw (Error ''boom'') :: (bool jsval, int, unit) meth)
        (some (Defined (1::int)), ()))"
  by (simp add: map_x_run throw_run value_some throws_def)

section \<open>Transformation\<close>

text \<open>
  C3, as amended. \<open>c.map(identity)\<close> has the same state and value as \<open>c\<close>, for every
  container \<open>c\<close>. For all functions \<open>f\<close> and \<open>g\<close>, \<open>c.map(f).map(g)\<close> has the same state and
  value as \<open>c.map(x => g(f(x)))\<close> (and both leave the same world behind) whenever \<open>c\<close> is
  empty or \<open>f\<close> does not return \<open>undefined\<close> for the value \<open>c\<close> holds.
\<close>

theorem map_functor_laws:
  "map_opt (\<lambda>x w. (x, w)) (c, w) = (Inr c, c, w)
   \<and> ((fst (isSome (c, w)) = Inr True \<longrightarrow> fst (f (value c) w) \<noteq> Undefined) \<longrightarrow>
        chain (map_opt f) (map_opt g) (c, w) = map_opt (compose g f) (c, w))"
proof (intro conjI impI)
  show "map_opt (\<lambda>x w. (x, w)) (c, w) = (Inr c, c, w)"
    by (simp add: map_opt_run some_value Option_eq_iff value_none)
next
  assume f_defined: "fst (isSome (c, w)) = Inr True \<longrightarrow> fst (f (value c) w) \<noteq> Undefined"
  show "chain (map_opt f) (map_opt g) (c, w) = map_opt (compose g f) (c, w)"
  proof (cases "value c = Undefined")
    case True
    then show ?thesis
      by (simp add: chain_def bind_def on_run map_opt_run value_none)
  next
    case False
    with f_defined have "fst (f (value c) w) \<noteq> Undefined"
      by (simp add: isSome_run)
    with False show ?thesis
      by (simp add: chain_def bind_def on_run map_opt_run value_some compose_def split: prod.split)
  qed
qed

theorem map_functor_laws_witness:
  "map_opt (\<lambda>x w. (x, w)) (some (Defined (4::int)), (0::nat))
     = (Inr (some (Defined 4)), some (Defined 4), 0)
   \<and> fst (isSome (some (Defined (4::int)), (0::nat))) = Inr True
   \<and> fst ((\<lambda>x n. (Defined True, Suc n)) (value (some (Defined (4::int)))) (0::nat)) \<noteq> Undefined
   \<and> chain (map_opt (\<lambda>x n. (Defined True, Suc n))) (map_opt (\<lambda>y n. (Defined ''yes'', n + 2)))
        (some (Defined (4::int)), (0::nat))
      = map_opt (compose (\<lambda>y n. (Defined ''yes'', n + 2)) (\<lambda>x n. (Defined True, Suc n)))
          (some (Defined (4::int)), (0::nat))
   \<and> map_opt (compose (\<lambda>y n. (Defined ''yes'', n + 2)) (\<lambda>x n. (Defined True, Suc n)))
          (some (Defined (4::int)), (0::nat))
      = (Inr (some (Defined ''yes'')), some (Defined 4), 3)"
  using map_functor_laws [of "some (Defined (4::int))" "0::nat"
      "\<lambda>x n. (Defined True, Suc n)" "\<lambda>y n. (Defined ''yes'', n + 2)"]
  by (simp add: map_opt_run isSome_run value_some compose_def)

text \<open>
  C3 as stated fails when \<open>f\<close> returns \<open>undefined\<close>: \<open>Option.some(1).map(x => undefined)\<close> is
  empty, so \<open>.map(y => 2)\<close> never calls its function and the chain ends empty, while
  \<open>Option.some(1).map(x => (y => 2)((x => undefined)(x)))\<close> is present with \<open>2\<close>.
\<close>

theorem map_composition_counterexample:
  "fst (chain (map_opt (\<lambda>x w. (Undefined :: bool jsval, w))) (map_opt (\<lambda>y w. (Defined (2::int), w)))
         (some (Defined (1::int)), ())) = Inr none
   \<and> fst (map_opt (compose (\<lambda>y w. (Defined (2::int), w)) (\<lambda>x w. (Undefined :: bool jsval, w)))
         (some (Defined (1::int)), ())) = Inr (some (Defined 2))
   \<and> fst (isSome (none :: int Option, ())) = Inr False
   \<and> fst (isSome (some (Defined (2::int)), ())) = Inr True
   \<and> chain (map_opt (\<lambda>x w. (Undefined :: bool jsval, w))) (map_opt (\<lambda>y w. (Defined (2::int), w)))
         (some (Defined (1::int)), ())
      \<noteq> map_opt (compose (\<lambda>y w. (Defined (2::int), w)) (\<lambda>x w. (Undefined :: bool jsval, w)))
         (some (Defined (1::int)), ())"
  by (simp add: chain_def bind_def on_run map_opt_run value_some value_none compose_def isSome_run
      Option_eq_iff)

section \<open>Combination\<close>

text \<open>
  C4, as amended. For every value \<open>v\<close> other than \<open>undefined\<close> and every function \<open>f\<close>
  returning a container, \<open>Option.some(v).andThen(f)\<close> returns what \<open>f(v)\<close> returns, with the
  effect of that one call of \<open>f\<close> and no other.
\<close>

theorem andThen_left_identity:
  assumes "v \<noteq> Undefined"
  shows "andThen f (some v, w) = (Inr (fst (f v w)), some v, snd (f v w))"
  using assms by (simp add: andThen_run value_some)

theorem andThen_left_identity_witness:
  "Defined (3::int) \<noteq> Undefined
   \<and> andThen (\<lambda>x n. (some x, Suc n)) (some (Defined (3::int)), (0::nat))
       = (Inr (some (Defined 3)), some (Defined 3), 1)"
  using andThen_left_identity [of "Defined (3::int)" "\<lambda>x n. (some x, Suc n)" "0::nat"]
  by simp

text \<open>
  C4 as stated fails at \<open>v = undefined\<close>: \<open>Option.some(undefined)\<close> is absent, so
  \<open>andThen\<close> returns an empty container without calling \<open>f\<close>, while \<open>f(undefined)\<close> is
  present with \<open>1\<close> for \<open>f = x => Option.some(1)\<close>.
\<close>

theorem andThen_undefined_counterexample:
  "fst (andThen (\<lambda>x w. (some (Defined (1::int)), w)) (some (Undefined :: int jsval), ())) = Inr none
   \<and> fst ((\<lambda>x w. (some (Defined (1::int)), w)) (Undefined :: int jsval) ()) = some (Defined 1)
   \<and> fst (isSome (none :: int Option, ())) = Inr False
   \<and> fst (isSome (some (Defined (1::int)), ())) = Inr True"
  by (simp add: andThen_run value_some value_none isSome_run)

text \<open>
  C5. \<open>a.xor(b)\<close> is \<open>a\<close> when \<open>a\<close> is present and \<open>b\<close> absent, \<open>b\<close> when \<open>a\<close> is absent and
  \<open>b\<close> present, and empty when both are present or both are absent; it never throws and
  changes neither the receiver nor the world. In particular \<open>some(1).xor(none())\<close> is
  present with \<open>1\<close>, \<open>none().xor(some(2))\<close> is present with \<open>2\<close>, and \<open>some(1).xor(some(2))\<close>
  and \<open>none().xor(none())\<close> are empty.
\<close>

theorem xor_truth_table:
  "(fst (isSome (a, w)) = Inr True \<and> fst (isNone (b, w)) = Inr True \<longrightarrow>
      xor_opt b (a, w) = (Inr a, a, w))
   \<and> (fst (isNone (a, w)) = Inr True \<and> fst (isSome (b, w)) = Inr True \<longrightarrow>
      xor_opt b (a, w) = (Inr b, a, w))
   \<and> (fst (isSome (a, w)) = Inr True \<and> fst (isSome (b, w)) = Inr True \<longrightarrow>
      xor_opt b (a, w) = (Inr none, a, w))
   \<and> (fst (isNone (a, w)) = Inr True \<and> fst (isNone (b, w)) = Inr True \<longrightarrow>
      xor_opt b (a, w) = (Inr none, a, w))
   \<and> fst (xor_opt none (some (Defined (1::int)), w)) = Inr (some (Defined 1))
   \<and> fst (xor_opt (some (Defined (2::int))) (none, w)) = Inr (some (Defined 2))
   \<and> fst (xor_opt (some (Defined (2::int))) (some (Defined 1), w)) = Inr none
   \<and> fst (xor_opt (none :: int Option) (none, w)) = Inr none"
  by (simp add: xor_opt_run isSome_run isNone_run value_some value_none Option_eq_iff)

theorem xor_truth_table_witness:
  "fst (isSome (some (Defined ''a''), ())) = Inr True
   \<and> fst (isSome (some (Defined ''b''), ())) = Inr True
   \<and> fst (isNone (none :: string Option, ())) = Inr True
   \<and> xor_opt none (some (Defined ''a''), ()) = (Inr (some (Defined ''a'')), some (Defined ''a''), ())
   \<and> xor_opt (some (Defined ''b'')) (none, ()) = (Inr (some (Defined ''b'')), none, ())
   \<and> xor_opt (some (Defined ''b'')) (some (Defined ''a''), ()) = (Inr none, some (Defined ''a''), ())
   \<and> xor_opt (none :: string Option) (none, ()) = (Inr none, none, ())"
  using xor_truth_table [of "some (Defined ''a'')" "()" none]
    xor_truth_table [of none "()" "some (Defined ''b'')"]
    xor_truth_table [of "some (Defined ''a'')" "()" "some (Defined ''b'')"]
    xor_truth_table [of "none :: string Option" "()" none]
  by (simp add: isSome_run isNone_run value_some value_none)

section \<open>Mutation\<close>

text \<open>
  C6. \<open>take()\<close> on a present container returns a present container holding the original
  value and leaves the receiver empty, so that \<open>unwrap()\<close> on the receiver then throws.
  \<open>take()\<close> on an empty container returns an empty container without error and leaves the
  receiver empty, and any number \<open>n\<close> of \<open>take()\<close> calls in a row on an empty container all
  return empty containers; on any container, every \<open>take()\<close> after the first returns an
  empty container.
\<close>

theorem take_leaves_empty:
  "(fst (isSome (c, w)) = Inr True \<longrightarrow>
      take_opt (c, w) = (Inr (some (value c)), none, w)
      \<and> fst (isSome (some (value c), w)) = Inr True
      \<and> fst (unwrap (fst (snd (take_opt (c, w))), w)) = Inl (Error ''Option is None''))
   \<and> (fst (isNone (c, w)) = Inr True \<longrightarrow>
      take_opt (c, w) = (Inr none, none, w)
      \<and> repeat_take n (c, w) = replicate n (Inr none))
   \<and> repeat_take (Suc n) (c, w) = fst (take_opt (c, w)) # replicate n (Inr none)
   \<and> fst (isNone (fst (snd (take_opt (c, w))), w)) = Inr True
   \<and> fst (isNone (none :: 'a Option, w)) = Inr True"
  by (simp add: take_opt_run isSome_run isNone_run unwrap_run value_some value_none
      Option_eq_iff value_constructor repeat_take_empty repeat_take_Suc del: repeat_take.simps)

theorem take_leaves_empty_witness:
  "fst (isSome (some (Defined (7::int)), ())) = Inr True
   \<and> take_opt (some (Defined (7::int)), ()) = (Inr (some (Defined 7)), none, ())
   \<and> fst (unwrap (none :: int Option, ())) = Inl (Error ''Option is None'')
   \<and> fst (isNone (none :: int Option, ())) = Inr True
   \<and> take_opt (none :: int Option, ()) = (Inr none, none, ())
   \<and> repeat_take 3 (none :: int Option, ()) = [Inr none, Inr none, Inr none]"
  using take_leaves_empty [of "some (Defined (7::int))" "()" 0]
    take_leaves_empty [of "none :: int Option" "()" 3]
  by (simp add: isSome_run isNone_run unwrap_run value_some value_none numeral_3_eq_3)

text \<open>
  C7, as amended. For every value \<open>v\<close>, \<open>insert(v)\<close> stores \<open>v\<close> in the container, whatever
  it held, and returns the newly stored value; the container is then in the present state
  when \<open>v\<close> is not \<open>undefined\<close>. For every value \<open>v2\<close>, \<open>replace(v2)\<close> on a container holding
  \<open>v1\<close> returns a present container holding \<open>v1\<close>, and the receiver afterwards holds \<open>v2\<close>, in
  the present state when \<open>v2\<close> is not \<open>undefined\<close>.
\<close>

theorem insert_replace_store:
  "fst (insert_opt v (c, w)) = Inr v
   \<and> value (fst (snd (insert_opt v (c, w)))) = v
   \<and> (v \<noteq> Undefined \<longrightarrow> fst (isSome (fst (snd (insert_opt v (c, w))), w)) = Inr True)
   \<and> (value c = v1 \<and> fst (isSome (c, w)) = Inr True \<longrightarrow>
        fst (replace v2 (c, w)) = Inr (some v1)
        \<and> fst (isSome (some v1, w)) = Inr True
        \<and> value (fst (snd (replace v2 (c, w)))) = v2
        \<and> (v2 \<noteq> Undefined \<longrightarrow> fst (isSome (fst (snd (replace v2 (c, w))), w)) = Inr True))"
  by (auto simp add: insert_opt_run replace_run isSome_run value_some Option_eq_iff
      value_constructor)

theorem insert_replace_store_witness:
  "Defined (2::int) \<noteq> Undefined
   \<and> value (some (Defined (1::int))) = Defined 1
   \<and> insert_opt (Defined (2::int)) (none, ()) = (Inr (Defined 2), some (Defined 2), ())
   \<and> fst (isSome (some (Defined (2::int)), ())) = Inr True
   \<and> replace (Defined (2::int)) (some (Defined 1), ()) = (Inr (some (Defined 1)), some (Defined 2), ())
   \<and> fst (isSome (some (Defined (1::int)), ())) = Inr True"
  using insert_replace_store [of "Defined (2::int)" none "()" "Defined 1" "Defined 2"]
    insert_replace_store [of "Defined (2::int)" "some (Defined 1)" "()" "Defined 1" "Defined 2"]
  by (simp add: insert_opt_run replace_run isSome_run value_some value_none Option_eq_iff
      value_constructor)

text \<open>
  C7 as stated fails at \<open>v = undefined\<close> and at \<open>v2 = undefined\<close>: after
  \<open>insert(undefined)\<close> or \<open>replace(undefined)\<close> on \<open>Option.some(1)\<close> the receiver is absent.
\<close>

theorem insert_undefined_counterexample:
  "fst (isSome (fst (snd (insert_opt Undefined (some (Defined (1::int)), ()))), ())) = Inr False
   \<and> fst (isSome (fst (snd (replace Undefined (some (Defined (1::int)), ()))), ())) = Inr False"
  by (simp add: insert_opt_run replace_run isSome_run)

text \<open>
  C9, as amended. \<open>getOrInsertWith(f)\<close> on a present container returns the existing value
  and never calls \<open>f\<close>: receiver and world are as before. On an empty container it calls
  \<open>f()\<close> exactly once (the world afterwards is the world after one call of \<open>f\<close>), stores the
  result in the container and returns that result; the container is then present when the
  result is not \<open>undefined\<close>.
\<close>

theorem getOrInsertWith_calls:
  "(fst (isSome (c, w)) = Inr True \<longrightarrow> getOrInsertWith f (c, w) = (Inr (value c), c, w))
   \<and> (fst (isNone (c, w)) = Inr True \<longrightarrow>
        getOrInsertWith f (c, w) = (Inr (fst (f w)), some (fst (f w)), snd (f w))
        \<and> (fst (f w) \<noteq> Undefined \<longrightarrow> fst (isSome (some (fst (f w)), snd (f w))) = Inr True))"
  by (simp add: getOrInsertWith_run isSome_run isNone_run value_some Option_eq_iff)

theorem getOrInsertWith_calls_witness:
  "fst (isSome (some (Defined (4::int)), (0::nat))) = Inr True
   \<and> fst (isNone (none :: int Option, (0::nat))) = Inr True
   \<and> fst ((\<lambda>n. (Defined (9::int), Suc n)) (0::nat)) \<noteq> Undefined
   \<and> getOrInsertWith (\<lambda>n. (Defined (9::int), Suc n)) (some (Defined 4), (0::nat))
     = (Inr (Defined 4), some (Defined 4), 0)
   \<and> getOrInsertWith (\<lambda>n. (Defined (9::int), Suc n)) (none, (0::nat))
     = (Inr (Defined 9), some (Defined 9), 1)
   \<and> fst (isSome (some (Defined (9::int)), (1::nat))) = Inr True"
  using getOrInsertWith_calls [of "some (Defined (4::int))" "0::nat" "\<lambda>n. (Defined 9, Suc n)"]
    getOrInsertWith_calls [of "none :: int Option" "0::nat" "\<lambda>n. (Defined 9, Suc n)"]
  by (simp add: isSome_run isNone_run value_some value_none)

text \<open>
  C9 as stated fails when \<open>f\<close> returns \<open>undefined\<close>: the call on an empty container runs
  \<open>f\<close> once (the counter goes from 0 to 1) and stores \<open>undefined\<close>, which leaves the
  container absent.
\<close>

theorem getOrInsertWith_undefined_counterexample:
  "getOrInsertWith (\<lambda>n. (Undefined :: int jsval, Suc n)) (none, (0::nat)) = (Inr Undefined, none, 1)
   \<and> fst (isSome (none :: int Option, (1::nat))) = Inr False"
  by (simp add: getOrInsertWith_run isSome_run value_none Option_eq_iff)

section \<open>The frame of the reading methods\<close>

text \<open>
  C8, as amended. No method other than \<open>take\<close>, \<open>replace\<close>, \<open>insert\<close>, \<open>getOrInsert\<close> and
  \<open>getOrInsertWith\<close> writes the receiver. After \<open>isSome\<close>, \<open>isNone\<close>, \<open>asSlice\<close>,
  \<open>expect\<close>, \<open>unwrap\<close>, \<open>unwrapOr\<close>, \<open>and\<close>, \<open>or\<close>, \<open>xor\<close> and \<open>zip\<close>, which take no
  callback, the receiver is as it was, whether the call returned or threw. After
  \<open>isSomeAnd\<close>, \<open>unwrapOrElse\<close>, \<open>map\<close>, \<open>inspect\<close>, \<open>mapOr\<close>, \<open>mapOrElse\<close>, \<open>andThen\<close>,
  \<open>filter\<close> and \<open>orElse\<close> the receiver and the world are exactly as the one callback the
  method called left them, and as they were when it called none.
\<close>

theorem readers_write_nothing:
  "fst (snd (isSome (this, w))) = this
   \<and> fst (snd (isNone (this, w))) = this
   \<and> fst (snd (asSlice (this, w))) = this
   \<and> fst (snd (expect msg (this, w))) = this
   \<and> fst (snd (unwrap (this, w))) = this
   \<and> fst (snd (unwrapOr d_unwrapOr (this, w))) = this
   \<and> fst (snd (and_opt optb_and (this, w))) = this
   \<and> fst (snd (or_opt optb_or (this, w))) = this
   \<and> fst (snd (xor_opt optb_xor (this, w))) = this
   \<and> fst (snd (zip_opt other_zip (this, w))) = this
   \<and> snd (isSomeAnd_x p_isSomeAnd (this, w))
       = (if fst (isSome (this, w)) = Inr True then snd (p_isSomeAnd (value this) (this, w))
          else (this, w))
   \<and> snd (unwrapOrElse_x f_unwrapOrElse (this, w))
       = (if fst (isSome (this, w)) = Inr True then (this, w)
          else snd (f_unwrapOrElse (this, w)))
   \<and> snd (map_x f_map (this, w))
       = (if fst (isSome (this, w)) = Inr True then snd (f_map (value this) (this, w))
          else (this, w))
   \<and> snd (inspect_x f_inspect (this, w))
       = (if fst (isSome (this, w)) = Inr True then snd (f_inspect (value this) (this, w))
          else (this, w))
   \<and> snd (mapOr_x d_mapOr f_mapOr (this, w))
       = (if fst (isSome (this, w)) = Inr True then snd (f_mapOr (value this) (this, w))
          else (this, w))
   \<and> snd (mapOrElse_x d_mapOrElse f_mapOrElse (this, w))
       = (if fst (isSome (this, w)) = Inr True then snd (f_mapOrElse (value this) (this, w))
          else snd (d_mapOrElse (this, w)))
   \<and> snd (andThen_x f_andThen (this, w))
       = (if fst (isSome (this, w)) = Inr True then snd (f_andThen (value this) (this, w))
          else (this, w))
   \<and> snd (filter_x p_filter (this, w))
       = (if fst (isSome (this, w)) = Inr True then snd (p_filter (value this) (this, w))
          else (this, w))
   \<and> snd (orElse_x f_orElse (this, w))
       = (if fst (isSome (this, w)) = Inr True then (this, w)
          else snd (f_orElse (this, w)))"
  by (simp add: meth_run meth_x_run split: sum.split)

theorem readers_write_nothing_witness:
  "snd (map_x (\<lambda>v. call (\<lambda>n. (Defined True, Suc n))) (some (Defined (6::int)), (0::nat)))
     = (some (Defined 6), 1)
   \<and> snd (inspect_x (\<lambda>v. bind (insert_opt (Defined 0)) (\<lambda>_. ret ()))
        (some (Defined (6::int)), (0::nat)))
     = (some (Defined 0), 0)
   \<and> fst (snd (unwrap (none :: int Option, (0::nat)))) = none"
  using readers_write_nothing
      [where this = "some (Defined (6::int))" and w = "0::nat"
         and f_map = "\<lambda>v. call (\<lambda>n. (Defined True, Suc n))"
         and f_inspect = "\<lambda>v. bind (insert_opt (Defined 0)) (\<lambda>_. ret ())"]
    readers_write_nothing [where this = "none :: int Option" and w = "0::nat"]
  by (simp add: map_x_run inspect_x_run unwrap_run call_run insert_opt_run bind_def ret_def
      isSome_run value_some value_none Option_eq_iff)

text \<open>
  C8 as stated fails for a callback that holds the receiver: in
  \<open>c.filter(x => { c.take(); return true; })\<close> on \<open>c = Option.some(1)\<close> the predicate
  empties \<open>c\<close>, so after \<open>filter\<close> the receiver is absent, and the \<open>this\<close> it returns is
  that emptied object.
\<close>

theorem filter_reentrant_counterexample:
  "filter_x (\<lambda>v. bind take_opt (\<lambda>_. ret True)) (some (Defined (1::int)), ())
     = (Inr none, none, ())
   \<and> fst (isSome (some (Defined (1::int)), ())) = Inr True
   \<and> fst (isSome (fst (snd (filter_x (\<lambda>v. bind take_opt (\<lambda>_. ret True))
        (some (Defined (1::int)), ()))), ())) = Inr False"
  by (simp add: filter_x_run bind_def take_opt_run ret_def isSome_run value_some value_none
      Option_eq_iff)

section \<open>The sentinel\<close>

text \<open>
  C10. Presence is the test of the slot against \<open>undefined\<close> and nothing else: for every
  container, \<open>isNone()\<close> returns whether the slot is \<open>undefined\<close> and \<open>isSome()\<close> the
  opposite. So \<open>Option.some(undefined)\<close> is absent, it is the same object state as
  \<open>Option.none()\<close>, and every method \<open>m\<close> does on it what it does on \<open>Option.none()\<close>. A call
  that stores \<open>undefined\<close> yields an absent container: the receiver after
  \<open>insert(undefined)\<close>, after \<open>replace(undefined)\<close> and after \<open>getOrInsert(undefined)\<close> on
  an empty container, and the container \<open>map\<close> returns on a present receiver when its
  function returns \<open>undefined\<close>.
\<close>

theorem presence_is_undefined_test:
  "isNone (c, w) = (Inr (value c = Undefined), c, w)
   \<and> isSome (c, w) = (Inr (value c \<noteq> Undefined), c, w)
   \<and> fst (isNone (some Undefined, w)) = Inr True
   \<and> some Undefined = (none :: 'a Option)
   \<and> m (some Undefined, w) = m (none, w)
   \<and> fst (isNone (fst (snd (insert_opt Undefined (c, w))), w)) = Inr True
   \<and> fst (isNone (fst (snd (replace Undefined (c, w))), w)) = Inr True
   \<and> fst (isNone (fst (snd (getOrInsert Undefined (c, w))), w)) = Inr (value c = Undefined)
   \<and> (fst (isSome (c, w)) = Inr True \<and> fst (f (value c) w) = Undefined \<longrightarrow>
        fst (map_opt f (c, w)) = Inr none
        \<and> fst (isNone (none :: 'b Option, snd (f (value c) w))) = Inr True)"
  by (simp add: isNone_run isSome_run insert_opt_run replace_run getOrInsert_run map_opt_run
      some_Undefined value_none)

theorem presence_is_undefined_test_witness:
  "fst (isSome (some (Defined (1::int)), ())) = Inr True
   \<and> fst ((\<lambda>x w. (Undefined :: bool jsval, w)) (value (some (Defined (1::int)))) ()) = Undefined
   \<and> fst (map_opt (\<lambda>x w. (Undefined :: bool jsval, w)) (some (Defined (1::int)), ())) = Inr none
   \<and> unwrap (some (Undefined :: int jsval), ()) = unwrap (none, ())"
  using presence_is_undefined_test
      [where c = "some (Defined (1::int))" and w = "()" and m = unwrap
         and f = "\<lambda>x w. (Undefined :: bool jsval, w)"]
  by (simp add: isSome_run map_opt_run value_some some_Undefined)

end
